theory Spec2Isabelle
  imports Main "HOL-Library.Sublist" "HOL-Library.FSet" "HOL-Library.AList"
begin

section \<open>Strings\<close>

text \<open>
  A Python \<open>str\<close> is modelled as a \<open>string\<close>: the list of the bytes of its UTF-8
  encoding. \<open>s.startswith(p)\<close> is \<open>prefix p s\<close>, \<open>s.endswith(p)\<close> is \<open>suffix p s\<close>
  and \<open>p in s\<close> is \<open>sublist p s\<close>; for the ASCII patterns of \<open>bot.py\<close> the byte view and
  the code-point view agree. \<open>s.lower()\<close> is modelled on the ASCII letters and leaves every
  other byte as it is: the keywords searched for in the lowered text are ASCII.
\<close>

definition lower_char :: "char \<Rightarrow> char" where
  "lower_char c =
     (case map_of (zip ''ABCDEFGHIJKLMNOPQRSTUVWXYZ'' ''abcdefghijklmnopqrstuvwxyz'') c of
        Some l \<Rightarrow> l
      | None \<Rightarrow> c)"

definition lower :: "string \<Rightarrow> string" where
  "lower s = map lower_char s"

definition endswith :: "string \<Rightarrow> string list \<Rightarrow> bool" where
  \<comment> \<open>\<open>s.endswith(t)\<close> for a tuple \<open>t\<close> of suffixes\<close>
  "endswith s sfxs = list_ex (\<lambda>sfx. suffix sfx s) sfxs"

section \<open>Inbound messages\<close>

record attachment =
  filename :: string

record user =
  user_id :: int
  user_name :: string
  mention :: string

record message =
  author :: user
  channel_id :: int
  content :: string
  attachments :: "attachment list"

section \<open>Submission detection (\<open>on_message\<close>, lines 163 to 184)\<close>

definition spreadsheet_extensions :: "string list" where
  "spreadsheet_extensions = [''.xlsx'', ''.xls'', ''.csv'', ''.ods'']"

definition google_sheets_keywords :: "string list" where
  "google_sheets_keywords =
     [''docs.google.com/spreadsheets'', ''sheets.google.com'', ''drive.google.com'']"

text \<open>
  The loop over the attachments: the flag starts \<open>False\<close>, and the first attachment whose
  filename ends with an extension sets it and leaves the loop.
\<close>

fun check_attachments :: "attachment list \<Rightarrow> bool" where
  "check_attachments [] = False"
| "check_attachments (a # as) =
     (if endswith (filename a) spreadsheet_extensions then True else check_attachments as)"

text \<open>The loop over the keywords, against the lowered text; the first hit leaves the loop.\<close>

fun check_keywords :: "string list \<Rightarrow> string \<Rightarrow> bool" where
  "check_keywords [] text = False"
| "check_keywords (keyword # ks) text =
     (if sublist keyword (lower text) then True else check_keywords ks text)"

definition spreadsheet_detected :: "message \<Rightarrow> bool" where
  "spreadsheet_detected m =
     (let detected = check_attachments (attachments m) in
      if \<not> detected \<and> content m \<noteq> [] then check_keywords google_sheets_keywords (content m)
      else detected)"

section \<open>The attendance ledger\<close>

text \<open>
  \<open>submissions_by_day\<close> is a \<open>dict[str, set[int]]\<close>. A Python dict keeps its keys in
  insertion order, which is the order \<open>save_data\<close> writes them in, so it is modelled as
  an association list: \<open>d[k] = v\<close> is \<open>AList.update k v d\<close> (in place when the key is
  there, appended otherwise). A \<open>set[int]\<close> is an \<open>int fset\<close>.
\<close>

type_synonym ledger = "(string \<times> int fset) list"

definition dict_get :: "ledger \<Rightarrow> string \<Rightarrow> int fset" where
  \<comment> \<open>\<open>d.get(k, set())\<close>\<close>
  "dict_get d k = (case map_of d k of None \<Rightarrow> {||} | Some v \<Rightarrow> v)"

definition setdefault :: "string \<Rightarrow> int fset \<Rightarrow> ledger \<Rightarrow> ledger" where
  \<comment> \<open>the dict after \<open>d.setdefault(k, v)\<close>\<close>
  "setdefault k v d = (case map_of d k of None \<Rightarrow> AList.update k v d | Some _ \<Rightarrow> d)"

definition record_submission :: "string \<Rightarrow> int \<Rightarrow> ledger \<Rightarrow> ledger" where
  \<comment> \<open>line 190: \<open>submissions_by_day.setdefault(today_key, set()).add(message.author.id)\<close>\<close>
  "record_submission today_key uid d =
     (let d1 = setdefault today_key {||} d
      in AList.update today_key (finsert uid (dict_get d1 today_key)) d1)"

section \<open>The data file\<close>

text \<open>
  \<open>json.load\<close> and \<open>json.dump\<close> are the standard library's: the file is modelled by what
  \<open>json.load\<close> makes of it. \<open>Absent\<close> is a path that is not a file, \<open>Unreadable\<close> a file on
  which \<open>open\<close> or \<open>json.load\<close> raises the given error, \<open>Parsed v\<close> a file from which
  \<open>json.load\<close> returns \<open>v\<close>: \<open>None\<close>, a boolean, an integer, a float (kept as the
  literal that denotes it), a string, a list, or a dict, which holds the members of the
  JSON object in the order of its keys.
\<close>

datatype py_error =
  OSError | ValueError | TypeError | AttributeError | Forbidden | HTTPException

datatype jvalue =
    JNull
  | JBool bool
  | JInt int
  | JFloat string
  | JStr string
  | JList "jvalue list"
  | JObj "(string \<times> jvalue) list"

datatype disk_file = Absent | Unreadable py_error | Parsed jvalue

datatype log_event =
    LoadedHistory nat
  | LoadFailed py_error
  | SaveFailed py_error
  | DateChanged string string
  | Heartbeat string nat bool

record embed =
  title :: string
  description :: string
  color :: nat
  footer :: string

datatype outgoing = Text string | Embed embed

text \<open>
  The state of the process and of what it acts on: the global dict, the data file, whether
  the file can be written, the messages handed to \<open>send\<close> (with the channel they went to)
  and the calls of \<open>logging\<close>. In a command the \<open>send\<close> is the last statement: it is
  modelled as the call made, and whether the platform accepts the message changes nothing
  in the state. In \<open>on_message\<close> statements follow the sends, and there the answer of the
  platform is an input (\<open>try_send\<close>).
\<close>

record world =
  submissions_by_day :: ledger
  data_file :: disk_file
  disk_writable :: bool
  sent :: "(int \<times> outgoing) list"
  logged :: "log_event list"

definition logging :: "log_event \<Rightarrow> world \<Rightarrow> world" where
  "logging e st = st\<lparr>logged := logged st @ [e]\<rparr>"

definition send :: "int \<Rightarrow> outgoing \<Rightarrow> world \<Rightarrow> world" where
  "send chan x st = st\<lparr>sent := sent st @ [(chan, x)]\<rparr>"

text \<open>
  A send that the platform may refuse: \<open>refuses chan x\<close> is the exception that sending
  \<open>x\<close> to the channel raises (\<open>Forbidden\<close> where the bot may not write), if any. A
  refused message is not sent.
\<close>

definition try_send ::
  "(int \<Rightarrow> outgoing \<Rightarrow> py_error option) \<Rightarrow> int \<Rightarrow> outgoing \<Rightarrow> world \<Rightarrow> py_error + world" where
  "try_send refuses chan x st =
     (case refuses chan x of None \<Rightarrow> Inr (send chan x st) | Some e \<Rightarrow> Inl e)"

subsection \<open>\<open>save_data\<close>\<close>

definition serializable :: "ledger \<Rightarrow> (string \<times> jvalue) list" where
  \<comment> \<open>\<open>{k: sorted(list(v)) for k, v in submissions_by_day.items()}\<close>\<close>
  "serializable d = map (\<lambda>(k, v). (k, JList (map JInt (sorted_list_of_fset v)))) d"

definition save_data :: "world \<Rightarrow> world" where
  "save_data st =
     (if disk_writable st
      then st\<lparr>data_file := Parsed (JObj (serializable (submissions_by_day st)))\<rparr>
      else logging (SaveFailed OSError) st)"

subsection \<open>\<open>load_data\<close>\<close>

text \<open>
  \<open>set(v)\<close> has three outcomes. It raises \<open>TypeError\<close> when \<open>v\<close> is not iterable
  (\<open>None\<close>, a boolean, a number) and when \<open>v\<close> is a list with an element that is not
  hashable (a list or a dict). It returns a set of integers when \<open>v\<close> is a list of
  integers, and the empty set when \<open>v\<close> is an empty string or an empty dict. Otherwise it
  returns a set that holds something else than integers: the characters of a string, the
  keys of a dict, the elements of a list with strings, floats, booleans or \<open>None\<close> among
  them. Such a set is not a \<open>set[int]\<close>: \<open>OtherSet\<close> says that there is one, not what it
  holds.
\<close>

datatype set_result = Raises py_error | IntSet "int fset" | OtherSet

fun hashable :: "jvalue \<Rightarrow> bool" where
  "hashable (JList _) = False"
| "hashable (JObj _) = False"
| "hashable _ = True"

fun ints_of :: "jvalue list \<Rightarrow> int list option" where
  "ints_of [] = Some []"
| "ints_of (JInt n # vs) = map_option ((#) n) (ints_of vs)"
| "ints_of (_ # vs) = None"

fun py_set :: "jvalue \<Rightarrow> set_result" where
  "py_set JNull = Raises TypeError"
| "py_set (JBool _) = Raises TypeError"
| "py_set (JInt _) = Raises TypeError"
| "py_set (JFloat _) = Raises TypeError"
| "py_set (JStr s) = (if s = [] then IntSet {||} else OtherSet)"
| "py_set (JObj kvs) = (if kvs = [] then IntSet {||} else OtherSet)"
| "py_set (JList vs) =
     (if \<not> list_all hashable vs then Raises TypeError
      else case ints_of vs of Some ns \<Rightarrow> IntSet (fset_of_list ns) | None \<Rightarrow> OtherSet)"

text \<open>
  The loop \<open>for k, v in raw.items(): submissions_by_day[k] = set(v)\<close>. An error leaves
  the loop with the entries stored so far still in the dict, and is what the first
  component returns. The result is \<open>None\<close> when the loop stores a set that is not a set of
  integers: the dict is then no \<open>dict[str, set[int]]\<close>, the type that line 29 declares
  and that a \<open>ledger\<close> is.
\<close>

fun load_items ::
  "(string \<times> jvalue) list \<Rightarrow> ledger \<Rightarrow> (py_error option \<times> ledger) option" where
  "load_items [] d = Some (None, d)"
| "load_items ((k, v) # kvs) d =
     (case py_set v of
        Raises e \<Rightarrow> Some (Some e, d)
      | IntSet s \<Rightarrow> load_items kvs (AList.update k s d)
      | OtherSet \<Rightarrow> None)"

text \<open>
  \<open>load_data\<close> catches every exception of its body, so it always returns; \<open>None\<close> is not
  an exception but the state in which the dict holds a set that is not a set of integers.
  A value that is not a dict has no \<open>items\<close>: \<open>AttributeError\<close>.
\<close>

definition load_data :: "world \<Rightarrow> world option" where
  "load_data st =
     (case data_file st of
        Absent \<Rightarrow> Some st
      | Unreadable e \<Rightarrow> Some (logging (LoadFailed e) st)
      | Parsed (JObj kvs) \<Rightarrow>
          (case load_items kvs (submissions_by_day st) of
             None \<Rightarrow> None
           | Some (Some e, d) \<Rightarrow> Some (logging (LoadFailed e) (st\<lparr>submissions_by_day := d\<rparr>))
           | Some (None, d) \<Rightarrow>
               Some (logging (LoadedHistory (length d)) (st\<lparr>submissions_by_day := d\<rparr>)))
      | Parsed _ \<Rightarrow> Some (logging (LoadFailed AttributeError) st))"

section \<open>The heartbeat\<close>

text \<open>
  One iteration of the loop of \<open>_heartbeat\<close>, after the sleep: \<open>chan\<close> tells whether the
  target channel resolved and \<open>current\<close> is what \<open>_today_key()\<close> returns in this
  iteration. The loop variable \<open>last_day\<close> is carried with the state.
\<close>

definition heartbeat_tick :: "bool \<Rightarrow> string \<Rightarrow> string \<times> world \<Rightarrow> string \<times> world" where
  "heartbeat_tick chan current s =
     (let (last_day, st) = s;
          (last_day1, st1) =
            (if current \<noteq> last_day
             then (current,
                   save_data ((logging (DateChanged last_day current) st)
                     \<lparr>submissions_by_day := setdefault current {||} (submissions_by_day st)\<rparr>))
             else (last_day, st))
      in (last_day1,
          logging (Heartbeat current (fcard (dict_get (submissions_by_day st1) current)) chan)
            st1))"

text \<open>The loop never ends; its first iterations, one per clock reading, are a fold.\<close>

fun heartbeat :: "(bool \<times> string) list \<Rightarrow> string \<times> world \<Rightarrow> string \<times> world" where
  "heartbeat [] s = s"
| "heartbeat ((chan, current) # ticks) s = heartbeat ticks (heartbeat_tick chan current s)"

section \<open>Configuration, guilds and command contexts\<close>

record config =
  CHANNEL_ID :: int
  bot_user :: int

record member =
  member_id :: int
  member_bot :: bool
  display_name :: string

text \<open>
  A guild as the code reads it: the list \<open>guild.members\<close> and the lookup
  \<open>guild.get_member\<close>. Nothing is assumed about how the two relate.
\<close>

record guild =
  members :: "member list"
  get_member :: "int \<Rightarrow> member option"

record command_context =
  ctx_channel_id :: int
  ctx_guild :: guild
  administrator :: bool

section \<open>Text\<close>

definition check_mark :: string where
  "check_mark = [CHR 0xE2, CHR 0x9C, CHR 0x85]"

definition cross_mark :: string where
  "cross_mark = [CHR 0xE2, CHR 0x9D, CHR 0x8C]"

definition robot_face :: string where
  "robot_face = [CHR 0xF0, CHR 0x9F, CHR 0xA4, CHR 0x96]"

definition bar_chart :: string where
  "bar_chart = [CHR 0xF0, CHR 0x9F, CHR 0x93, CHR 0x8A]"

definition clock_face :: string where
  "clock_face = [CHR 0xF0, CHR 0x9F, CHR 0x95, CHR 0x92]"

definition wastebasket :: string where
  "wastebasket = [CHR 0xF0, CHR 0x9F, CHR 0x97, CHR 0x91, CHR 0xEF, CHR 0xB8, CHR 0x8F]"

definition en_dash :: string where
  "en_dash = [CHR 0xE2, CHR 0x80, CHR 0x93]"

definition newline :: string where
  "newline = [CHR 0x0A]"

definition digit :: "nat \<Rightarrow> char" where
  "digit n = ''0123456789'' ! n"

fun str_nat :: "nat \<Rightarrow> string" where
  "str_nat n = (if n < 10 then [digit n] else str_nat (n div 10) @ [digit (n mod 10)])"

declare str_nat.simps [simp del]

definition str_int :: "int \<Rightarrow> string" where
  \<comment> \<open>how an f-string renders an \<open>int\<close>\<close>
  "str_int i = (if i < 0 then CHR ''-'' # str_nat (nat (- i)) else str_nat (nat i))"

fun join :: "string \<Rightarrow> string list \<Rightarrow> string" where
  "join sep [] = []"
| "join sep [x] = x"
| "join sep (x # y # ys) = x @ sep @ join sep (y # ys)"

section \<open>The roster partition (\<open>_get_today_sets\<close>)\<close>

definition get_today_sets :: "string \<Rightarrow> guild \<Rightarrow> ledger \<Rightarrow> int fset \<times> int fset" where
  "get_today_sets today g d =
     (let today_ids = dict_get d today;
          member_ids = fset_of_list (map member_id (filter (\<lambda>m. \<not> member_bot m) (members g)));
          submitted = today_ids |\<inter>| member_ids;
          not_submitted = member_ids |-| submitted
      in (submitted, not_submitted))"

section \<open>Reports\<close>

text \<open>
  The loop of \<open>report_submissions\<close> and of \<open>report_not_submitted\<close>, which differ in the
  mark only: \<open>lines\<close> is the list built so far, and an identity that \<open>get_member\<close> does
  not know is written as the number itself.
\<close>

fun report_lines :: "string \<Rightarrow> guild \<Rightarrow> int list \<Rightarrow> string list \<Rightarrow> string list" where
  "report_lines mark g [] lines = lines"
| "report_lines mark g (uid # uids) lines =
     (let user = get_member g uid
      in report_lines mark g uids
           (lines @ [mark @ '' '' @ (case user of Some u \<Rightarrow> display_name u | None \<Rightarrow> str_int uid)]))"

text \<open>
  The generator of \<open>daily_report\<close>: its \<open>if ctx.guild.get_member(uid)\<close> filter passes
  over an identity that \<open>get_member\<close> does not know.
\<close>

fun daily_lines :: "string \<Rightarrow> guild \<Rightarrow> int list \<Rightarrow> string list" where
  "daily_lines mark g [] = []"
| "daily_lines mark g (uid # uids) =
     (case get_member g uid of
        Some u \<Rightarrow> (mark @ '' '' @ display_name u) # daily_lines mark g uids
      | None \<Rightarrow> daily_lines mark g uids)"

text \<open>The timestamp of an embed, a reading of the clock, is left out of \<open>embed\<close>.\<close>

definition report_submissions :: "config \<Rightarrow> string \<Rightarrow> command_context \<Rightarrow> world \<Rightarrow> world" where
  "report_submissions cfg today ctx st =
     (if ctx_channel_id ctx \<noteq> CHANNEL_ID cfg then st
      else let (submitted, _) = get_today_sets today (ctx_guild ctx) (submissions_by_day st)
           in if submitted = {||}
              then send (ctx_channel_id ctx)
                     (Text (cross_mark @ '' No submissions received today.'')) st
              else send (ctx_channel_id ctx)
                     (Embed \<lparr>title = bar_chart @ '' Submitted Today'',
                             description =
                               join newline
                                 (report_lines check_mark (ctx_guild ctx)
                                    (sorted_list_of_fset submitted) []),
                             color = 0x00ff00,
                             footer = ''Total submitted: '' @ str_nat (fcard submitted)\<rparr>) st)"

definition report_not_submitted :: "config \<Rightarrow> string \<Rightarrow> command_context \<Rightarrow> world \<Rightarrow> world" where
  "report_not_submitted cfg today ctx st =
     (if ctx_channel_id ctx \<noteq> CHANNEL_ID cfg then st
      else let (submitted, not_submitted) =
                 get_today_sets today (ctx_guild ctx) (submissions_by_day st)
           in if not_submitted = {||}
              then send (ctx_channel_id ctx)
                     (Text (check_mark @ '' Everyone has submitted today!'')) st
              else send (ctx_channel_id ctx)
                     (Embed \<lparr>title = clock_face @ '' Not Yet Submitted Today'',
                             description =
                               join newline
                                 (report_lines cross_mark (ctx_guild ctx)
                                    (sorted_list_of_fset not_submitted) []),
                             color = 0xFFAA00,
                             footer = ''Pending: '' @ str_nat (fcard not_submitted)
                               @ '' | Submitted: '' @ str_nat (fcard submitted)\<rparr>) st)"

definition daily_desc_parts :: "guild \<Rightarrow> int fset \<Rightarrow> int fset \<Rightarrow> string list" where
  \<comment> \<open>the list \<open>desc_parts\<close> of \<open>daily_report\<close>\<close>
  "daily_desc_parts g submitted not_submitted =
     [if submitted \<noteq> {||}
      then ''**Submitted:**'' @ newline
             @ join newline (daily_lines check_mark g (sorted_list_of_fset submitted))
      else ''No submissions yet.'',
      if not_submitted \<noteq> {||}
      then newline @ ''**Not Submitted:**'' @ newline
             @ join newline (daily_lines cross_mark g (sorted_list_of_fset not_submitted))
      else newline @ ''Everyone has submitted '' @ check_mark]"

definition daily_report :: "config \<Rightarrow> string \<Rightarrow> command_context \<Rightarrow> world \<Rightarrow> world" where
  "daily_report cfg today ctx st =
     (if ctx_channel_id ctx \<noteq> CHANNEL_ID cfg then st
      else let (submitted, not_submitted) =
                 get_today_sets today (ctx_guild ctx) (submissions_by_day st)
           in send (ctx_channel_id ctx)
                (Embed \<lparr>title = ''Daily Report '' @ en_dash @ '' '' @ today,
                        description =
                          join newline (daily_desc_parts (ctx_guild ctx) submitted not_submitted),
                        color = 0x3498DB,
                        footer = ''Submitted: '' @ str_nat (fcard submitted)
                          @ '' | Pending: '' @ str_nat (fcard not_submitted)
                          @ '' | Total: '' @ str_nat (fcard submitted + fcard not_submitted)\<rparr>)
                st)"

section \<open>\<open>clear_submissions\<close>\<close>

definition denial_text :: string where
  "denial_text = cross_mark @ '' You need administrator permissions to clear submissions.''"

definition cleared_text :: string where
  "cleared_text = wastebasket @ '' Cleared today'' @ [CHR 0x27] @ ''s submission list.''"

definition clear_submissions :: "config \<Rightarrow> string \<Rightarrow> command_context \<Rightarrow> world \<Rightarrow> world" where
  "clear_submissions cfg today ctx st =
     (if ctx_channel_id ctx \<noteq> CHANNEL_ID cfg then st
      else if \<not> administrator ctx then send (ctx_channel_id ctx) (Text denial_text) st
      else send (ctx_channel_id ctx) (Text cleared_text)
             (save_data (st\<lparr>submissions_by_day :=
                               AList.update today {||} (submissions_by_day st)\<rparr>)))"

section \<open>\<open>on_message\<close>\<close>

text \<open>
  \<open>today\<close> is what \<open>_today_key()\<close> returns when the message is handled, \<open>refuses\<close>
  is the answer of the platform to a send, and \<open>process_commands\<close> is the command
  dispatch of the library, which runs last. The handler returns (\<open>Inr\<close>) or is left by
  an exception (\<open>Inl\<close>, with the state at that point). The reply to \<open>!test\<close> (line 161)
  is outside any \<open>try\<close>; the confirmation (lines 193 to 198) is inside one that catches
  \<open>Forbidden\<close> and nothing else.
\<close>

definition on_message ::
  "config \<Rightarrow> (int \<Rightarrow> outgoing \<Rightarrow> py_error option) \<Rightarrow> (message \<Rightarrow> world \<Rightarrow> world)
     \<Rightarrow> string \<Rightarrow> message \<Rightarrow> world \<Rightarrow> (py_error \<times> world) + world" where
  "on_message cfg refuses process_commands today m st =
     (if user_id (author m) = bot_user cfg then Inr st
      else
        case (if prefix ''!test'' (content m)
              then try_send refuses (channel_id m)
                     (Text (robot_face @ '' Bot is working! Channel ID: ''
                              @ str_int (channel_id m))) st
              else Inr st) of
          Inl e \<Rightarrow> Inl (e, st)
        | Inr st1 \<Rightarrow>
            if spreadsheet_detected m
            then
              let st2 = save_data
                          (st1\<lparr>submissions_by_day :=
                                  record_submission today (user_id (author m))
                                    (submissions_by_day st1)\<rparr>)
              in case try_send refuses (channel_id m)
                        (Text (check_mark @ '' Spreadsheet received from ''
                                 @ mention (author m))) st2 of
                   Inl e \<Rightarrow> if e = Forbidden then Inr (process_commands m st2) else Inl (e, st2)
                 | Inr st3 \<Rightarrow> Inr (process_commands m st3)
            else Inr (process_commands m st1))"

section \<open>Sequences of recordings\<close>

text \<open>A sequence of \<open>record(day, id)\<close> operations, each the statement of line 190.\<close>

fun record_all :: "(string \<times> int) list \<Rightarrow> ledger \<Rightarrow> ledger" where
  "record_all [] d = d"
| "record_all ((day, uid) # ops) d = record_all ops (record_submission day uid d)"

section \<open>The specification's reading of \<open>load\<close>\<close>



section \<open>The specification's report scenario\<close>

text \<open>
  The roster of the scenario of the specification: identity 1 resolves to Alice, 2 to Bob,
  and 3 does not resolve.
\<close>

definition scenario_guild :: guild where
  "scenario_guild =
     \<lparr>members = [\<lparr>member_id = 1, member_bot = False, display_name = ''Alice''\<rparr>,
                 \<lparr>member_id = 2, member_bot = False, display_name = ''Bob''\<rparr>,
                 \<lparr>member_id = 3, member_bot = False, display_name = ''Carol''\<rparr>],
      get_member =
        (\<lambda>uid. if uid = 1
               then Some \<lparr>member_id = 1, member_bot = False, display_name = ''Alice''\<rparr>
               else if uid = 2
               then Some \<lparr>member_id = 2, member_bot = False, display_name = ''Bob''\<rparr>
               else None)\<rparr>"

definition scenario_context :: command_context where
  "scenario_context = \<lparr>ctx_channel_id = 42, ctx_guild = scenario_guild, administrator = False\<rparr>"

definition scenario_world :: world where
  "scenario_world =
     \<lparr>submissions_by_day = [(''2024-01-02'', {|1|})], data_file = Absent,
      disk_writable = True, sent = [], logged = []\<rparr>"

section \<open>Evaluation of strings\<close>

lemmas string_eval = lower_def lower_char_def suffix_to_prefix sublist_code(3)

section \<open>The submission detector\<close>

lemma check_attachments_iff:
  "check_attachments as \<longleftrightarrow>
     (\<exists>a\<in>set as. \<exists>e\<in>set spreadsheet_extensions. suffix e (filename a))"
  by (induction as) (auto simp: endswith_def list_ex_iff)

lemma check_keywords_iff:
  "check_keywords ks text \<longleftrightarrow> (\<exists>k\<in>set ks. sublist k (lower text))"
  by (induction ks) auto

lemma sublist_lower_iff:
  "sublist k (lower text) \<longleftrightarrow> (\<exists>ps seg ss. text = ps @ seg @ ss \<and> lower seg = k)"
  unfolding sublist_def lower_def
  by (metis append_eq_map_conv map_append)

text \<open>
  C1. The detector applies its rules in order and the first that matches decides: a message
  is a submission if the filename of one of its attachments ends, as it is written, with
  \<open>.xlsx\<close>, \<open>.xls\<close>, \<open>.csv\<close> or \<open>.ods\<close>; otherwise it is one if its text, lowered,
  contains \<open>docs.google.com/spreadsheets\<close>, \<open>sheets.google.com\<close> or
  \<open>drive.google.com\<close>; otherwise it is not a submission.
\<close>

theorem spreadsheet_detected_rules:
  "spreadsheet_detected m =
     (if \<exists>a\<in>set (attachments m).
           \<exists>e\<in>{''.xlsx'', ''.xls'', ''.csv'', ''.ods''}. suffix e (filename a)
      then True
      else if \<exists>k\<in>{''docs.google.com/spreadsheets'', ''sheets.google.com'', ''drive.google.com''}.
                sublist k (lower (content m))
      then True
      else False)"
proof -
  have no_hit: "\<not> check_keywords google_sheets_keywords []"
    by (simp add: check_keywords_iff google_sheets_keywords_def lower_def)
  show ?thesis
    unfolding spreadsheet_detected_def Let_def check_attachments_iff
    using no_hit
    by (cases "content m = []")
       (auto simp: check_keywords_iff spreadsheet_extensions_def google_sheets_keywords_def)
qed

theorem spreadsheet_detected_rules_witness:
  "spreadsheet_detected
     \<lparr>author = \<lparr>user_id = 7, user_name = ''ann'', mention = ''<@7>''\<rparr>, channel_id = 3,
      content = ''check my Drive.Google.com folder'',
      attachments = [\<lparr>filename = ''report.pdf''\<rparr>]\<rparr>
   \<and> \<not> spreadsheet_detected
     \<lparr>author = \<lparr>user_id = 7, user_name = ''ann'', mention = ''<@7>''\<rparr>, channel_id = 3,
      content = ''hello team'',
      attachments = [\<lparr>filename = ''report.XLSX''\<rparr>]\<rparr>"
  using spreadsheet_detected_rules
          [of "\<lparr>author = \<lparr>user_id = 7, user_name = ''ann'', mention = ''<@7>''\<rparr>, channel_id = 3,
                content = ''check my Drive.Google.com folder'',
                attachments = [\<lparr>filename = ''report.pdf''\<rparr>]\<rparr>"]
        spreadsheet_detected_rules
          [of "\<lparr>author = \<lparr>user_id = 7, user_name = ''ann'', mention = ''<@7>''\<rparr>, channel_id = 3,
                content = ''hello team'',
                attachments = [\<lparr>filename = ''report.XLSX''\<rparr>]\<rparr>"]
  by (simp add: string_eval)

section \<open>The roster partition\<close>

text \<open>
  C2. For every ledger, day and roster, the two sets that \<open>_get_today_sets\<close> returns are
  disjoint, their union is the set of the identities of the roster's members that are not
  bots, and an identity that the ledger holds for the day but that no member of the roster
  has is in neither set.
\<close>

theorem roster_partition:
  assumes "get_today_sets day g d = (submitted, not_submitted)"
  shows "submitted |\<inter>| not_submitted = {||}
       \<and> fset (submitted |\<union>| not_submitted)
           = {member_id m | m. m \<in> set (members g) \<and> \<not> member_bot m}
       \<and> (\<forall>uid. uid |\<in>| dict_get d day \<and> uid \<notin> member_id ` set (members g)
             \<longrightarrow> uid |\<notin>| submitted \<and> uid |\<notin>| not_submitted)"
proof -
  let ?ids = "fset_of_list (map member_id (filter (\<lambda>m. \<not> member_bot m) (members g)))"
  have s: "submitted = dict_get d day |\<inter>| ?ids" and n: "not_submitted = ?ids |-| submitted"
    using assms by (auto simp: get_today_sets_def Let_def)
  have ids: "fset ?ids = {member_id m | m. m \<in> set (members g) \<and> \<not> member_bot m}"
    by (auto simp: fset_of_list.rep_eq)
  have "submitted |\<inter>| not_submitted = {||}"
    unfolding n by auto
  moreover have "submitted |\<union>| not_submitted = ?ids"
    unfolding n s by auto
  moreover have "uid |\<notin>| ?ids" if "uid \<notin> member_id ` set (members g)" for uid
    using that by (auto simp: fset_of_list.rep_eq)
  then have "\<forall>uid. uid |\<in>| dict_get d day \<and> uid \<notin> member_id ` set (members g)
             \<longrightarrow> uid |\<notin>| submitted \<and> uid |\<notin>| not_submitted"
    unfolding n s by auto
  ultimately show ?thesis using ids by simp
qed

theorem roster_partition_witness:
  "get_today_sets ''2024-01-01''
      \<lparr>members = [\<lparr>member_id = 1, member_bot = False, display_name = ''Alice''\<rparr>,
                  \<lparr>member_id = 2, member_bot = False, display_name = ''Bob''\<rparr>,
                  \<lparr>member_id = 3, member_bot = True, display_name = ''Helper''\<rparr>],
       get_member = (\<lambda>_. None)\<rparr>
      [(''2024-01-01'', {|1, 3, 9|})] = ({|1|}, {|2|})
   \<and> {|1|} |\<inter>| {|2|} = ({||} :: int fset)
   \<and> 9 |\<in>| dict_get [(''2024-01-01'', {|1, 3, 9|})] ''2024-01-01''
   \<and> 9 |\<notin>| ({|1|} :: int fset) \<and> 9 |\<notin>| ({|2|} :: int fset)"
proof -
  have h: "get_today_sets ''2024-01-01''
      \<lparr>members = [\<lparr>member_id = 1, member_bot = False, display_name = ''Alice''\<rparr>,
                  \<lparr>member_id = 2, member_bot = False, display_name = ''Bob''\<rparr>,
                  \<lparr>member_id = 3, member_bot = True, display_name = ''Helper''\<rparr>],
       get_member = (\<lambda>_. None)\<rparr>
      [(''2024-01-01'', {|1, 3, 9|})] = ({|1|}, {|2|})"
    by (simp add: get_today_sets_def dict_get_def)
  have g: "9 |\<in>| dict_get [(''2024-01-01'', {|1, 3, 9|})] ''2024-01-01''"
    by (simp add: dict_get_def)
  from roster_partition [OF h] h g show ?thesis
    by simp
qed

section \<open>Recording a submission\<close>

lemma map_of_setdefault:
  "map_of (setdefault k v d) k' =
     (if k' = k \<and> map_of d k = None then Some v else map_of d k')"
  by (auto simp: setdefault_def update_conv' split: option.splits)

lemma dict_get_setdefault_empty [simp]: "dict_get (setdefault k {||} d) k' = dict_get d k'"
  by (simp add: dict_get_def map_of_setdefault)

lemma map_of_record_submission:
  "map_of (record_submission day uid d) k =
     (if k = day then Some (finsert uid (dict_get d day)) else map_of d k)"
  by (simp add: record_submission_def Let_def update_conv' map_of_setdefault)

lemma dict_get_record_submission:
  "dict_get (record_submission day uid d) k =
     (if k = day then finsert uid (dict_get d day) else dict_get d k)"
  by (simp add: dict_get_def map_of_record_submission)

lemma record_submission_present:
  assumes "uid |\<in>| dict_get d day"
  shows "record_submission day uid d = d"
proof -
  from assms obtain s where s: "map_of d day = Some s" and "uid |\<in>| s"
    by (auto simp: dict_get_def split: option.splits)
  then have "finsert uid (dict_get d day) = s"
    by (auto simp: dict_get_def)
  with s show ?thesis
    by (simp add: record_submission_def setdefault_def update_triv)
qed

lemma dict_get_record_all:
  "fset (dict_get (record_all ops d) day)
     = fset (dict_get d day) \<union> {uid. (day, uid) \<in> set ops}"
  by (induction ops d rule: record_all.induct) (auto simp: dict_get_record_submission)

lemma distinct_sorted_list_of_fset: "distinct (sorted_list_of_fset s)"
  by (simp add: sorted_list_of_fset.rep_eq)

lemma sorted_sorted_list_of_fset: "sorted (sorted_list_of_fset s)"
  by (simp add: sorted_list_of_fset.rep_eq)

text \<open>
  C3. Recording is idempotent. After any sequence of recordings the identities of the day,
  as \<open>save_data\<close> lists them, hold no identity twice, and the day's set is the set it was
  together with the identities recorded for that day, however often each was recorded;
  recording the same identity a second time changes nothing, and recording an identity
  that the day's set already holds leaves the ledger as it is.
\<close>

theorem record_idempotent:
  "distinct (sorted_list_of_fset (dict_get (record_all ops d) day))
   \<and> fset (dict_get (record_all ops d) day)
       = fset (dict_get d day) \<union> {uid. (day, uid) \<in> set ops}
   \<and> record_submission day uid (record_submission day uid d) = record_submission day uid d
   \<and> (uid |\<in>| dict_get d day \<longrightarrow> record_submission day uid d = d)"
proof -
  have "uid |\<in>| dict_get (record_submission day uid d) day"
    by (simp add: dict_get_record_submission)
  then have "record_submission day uid (record_submission day uid d)
               = record_submission day uid d"
    by (rule record_submission_present)
  then show ?thesis
    by (simp add: distinct_sorted_list_of_fset dict_get_record_all record_submission_present)
qed

theorem record_idempotent_witness:
  "5 |\<in>| dict_get [(''2024-01-01'', {|5, 6|})] ''2024-01-01''
   \<and> record_submission ''2024-01-01'' 5 [(''2024-01-01'', {|5, 6|})]
       = [(''2024-01-01'', {|5, 6|})]
   \<and> sorted_list_of_fset
        (dict_get (record_all [(''2024-01-01'', 5), (''2024-01-01'', 7), (''2024-01-01'', 5)]
                     [(''2024-01-01'', {|5, 6|})]) ''2024-01-01'') = [5, 6, 7]"
proof -
  have h: "5 |\<in>| dict_get [(''2024-01-01'', {|5, 6|})] ''2024-01-01''"
    by (simp add: dict_get_def)
  have e: "sorted_list_of_fset
        (dict_get (record_all [(''2024-01-01'', 5), (''2024-01-01'', 7), (''2024-01-01'', 5)]
                     [(''2024-01-01'', {|5, 6|})]) ''2024-01-01'') = [5, 6, 7]"
    by code_simp
  from record_idempotent
         [of "[(''2024-01-01'', 5), (''2024-01-01'', 7), (''2024-01-01'', 5)]"
             "[(''2024-01-01'', {|5, 6|})]" "''2024-01-01''" 5] h e
  show ?thesis by simp
qed

section \<open>Saving\<close>

lemma update_absent: "map_of d k = None \<Longrightarrow> AList.update k v d = d @ [(k, v)]"
  by (induction d) (auto split: if_splits)

lemma setdefault_absent: "map_of d k = None \<Longrightarrow> setdefault k v d = d @ [(k, v)]"
  by (simp add: setdefault_def update_absent)

lemma save_data_ledger [simp]: "submissions_by_day (save_data st) = submissions_by_day st"
  by (simp add: save_data_def logging_def)

lemma save_data_sent [simp]: "sent (save_data st) = sent st"
  by (simp add: save_data_def logging_def)

section \<open>Day rollover\<close>

text \<open>
  C4 as stated fails: when the ledger already holds an entry for the new day (a submission
  was recorded after midnight, before the tick), the tick that notices the change adds
  nothing, and the entry of the new day is not empty.
\<close>

theorem rollover_counterexample:
  "''2024-01-02'' \<noteq> ''2024-01-01''
   \<and> submissions_by_day
        (snd (heartbeat_tick True ''2024-01-02''
               (''2024-01-01'',
                \<lparr>submissions_by_day = [(''2024-01-01'', {|1, 2|}), (''2024-01-02'', {|7|})],
                 data_file = Absent, disk_writable = True, sent = [], logged = []\<rparr>)))
       = [(''2024-01-01'', {|1, 2|}), (''2024-01-02'', {|7|})]
   \<and> map_of
        (submissions_by_day
          (snd (heartbeat_tick True ''2024-01-02''
                 (''2024-01-01'',
                  \<lparr>submissions_by_day = [(''2024-01-01'', {|1, 2|}), (''2024-01-02'', {|7|})],
                   data_file = Absent, disk_writable = True, sent = [], logged = []\<rparr>))))
        ''2024-01-02'' \<noteq> Some {||}"
  by (simp add: heartbeat_tick_def setdefault_def save_data_def logging_def)

text \<open>
  C4, amended. On a tick where the current day key differs from the one seen before, the
  new key is remembered and the ledger holds an entry for it: a new empty one, appended,
  when it had none, and the entry it had, as it was, otherwise. Every entry the ledger had
  is unchanged, and a save is forced: the file holds the ledger when it can be written,
  and the failure is logged when it cannot.
\<close>

theorem rollover_tick:
  assumes "current \<noteq> last_day"
      and "heartbeat_tick chan current (last_day, st) = (last_day', st')"
  shows "last_day' = current
       \<and> map_of (submissions_by_day st') current
           = Some (dict_get (submissions_by_day st) current)
       \<and> (map_of (submissions_by_day st) current = None
            \<longrightarrow> submissions_by_day st' = submissions_by_day st @ [(current, {||})])
       \<and> (\<forall>k v. map_of (submissions_by_day st) k = Some v
            \<longrightarrow> map_of (submissions_by_day st') k = Some v)
       \<and> (\<forall>k. k \<noteq> current
            \<longrightarrow> map_of (submissions_by_day st') k = map_of (submissions_by_day st) k)
       \<and> (disk_writable st
            \<longrightarrow> data_file st' = Parsed (JObj (serializable (submissions_by_day st'))))
       \<and> (\<not> disk_writable st
            \<longrightarrow> data_file st' = data_file st \<and> SaveFailed OSError \<in> set (logged st'))"
proof -
  let ?d = "setdefault current {||} (submissions_by_day st)"
  have l: "last_day' = current" and d: "submissions_by_day st' = ?d"
    using assms by (auto simp: heartbeat_tick_def logging_def)
  have f1: "disk_writable st \<Longrightarrow> data_file st' = Parsed (JObj (serializable ?d))"
    using assms by (auto simp: heartbeat_tick_def logging_def save_data_def)
  have f2: "\<not> disk_writable st \<Longrightarrow>
              data_file st' = data_file st \<and> SaveFailed OSError \<in> set (logged st')"
    using assms by (auto simp: heartbeat_tick_def logging_def save_data_def)
  have "map_of ?d current = Some (dict_get (submissions_by_day st) current)"
    by (auto simp: map_of_setdefault dict_get_def)
  moreover have "map_of (submissions_by_day st) current = None
                   \<Longrightarrow> ?d = submissions_by_day st @ [(current, {||})]"
    by (rule setdefault_absent)
  moreover have "\<forall>k v. map_of (submissions_by_day st) k = Some v \<longrightarrow> map_of ?d k = Some v"
    by (auto simp: map_of_setdefault)
  moreover have "\<forall>k. k \<noteq> current \<longrightarrow> map_of ?d k = map_of (submissions_by_day st) k"
    by (simp add: map_of_setdefault)
  ultimately show ?thesis
    using l d f1 f2 by simp
qed

theorem rollover_tick_witness:
  "''2024-01-02'' \<noteq> ''2024-01-01''
   \<and> heartbeat_tick True ''2024-01-02''
       (''2024-01-01'',
        \<lparr>submissions_by_day = [(''2024-01-01'', {|1, 2|})],
         data_file = Absent, disk_writable = True, sent = [], logged = []\<rparr>)
     = (''2024-01-02'',
        \<lparr>submissions_by_day = [(''2024-01-01'', {|1, 2|}), (''2024-01-02'', {||})],
         data_file = Parsed (JObj [(''2024-01-01'', JList [JInt 1, JInt 2]),
                                    (''2024-01-02'', JList [])]),
         disk_writable = True, sent = [],
         logged = [DateChanged ''2024-01-01'' ''2024-01-02'', Heartbeat ''2024-01-02'' 0 True]\<rparr>)
   \<and> map_of [(''2024-01-01'', {|1, 2|}), (''2024-01-02'', {||})] ''2024-01-01''
       = Some {|1, 2|}"
proof -
  have n: "''2024-01-02'' \<noteq> ''2024-01-01''" by simp
  have h: "heartbeat_tick True ''2024-01-02''
       (''2024-01-01'',
        \<lparr>submissions_by_day = [(''2024-01-01'', {|1, 2|})],
         data_file = Absent, disk_writable = True, sent = [], logged = []\<rparr>)
     = (''2024-01-02'',
        \<lparr>submissions_by_day = [(''2024-01-01'', {|1, 2|}), (''2024-01-02'', {||})],
         data_file = Parsed (JObj [(''2024-01-01'', JList [JInt 1, JInt 2]),
                                    (''2024-01-02'', JList [])]),
         disk_writable = True, sent = [],
         logged = [DateChanged ''2024-01-01'' ''2024-01-02'', Heartbeat ''2024-01-02'' 0 True]\<rparr>)"
    by code_simp
  from rollover_tick [OF n h] n h show ?thesis
    by simp
qed

section \<open>Round trip through the data file\<close>

lemma ints_of_map_JInt [simp]: "ints_of (map JInt ns) = Some ns"
  by (induction ns) simp_all

lemma hashable_map_JInt [simp]: "list_all hashable (map JInt ns)"
  by (induction ns) simp_all

lemma py_set_sorted_list [simp]:
  "py_set (JList (map JInt (sorted_list_of_fset s))) = IntSet s"
  by simp

lemma load_items_serializable_fresh:
  assumes "distinct (map fst (acc @ d))"
  shows "load_items (serializable d) acc = Some (None, acc @ d)"
  using assms
proof (induction d arbitrary: acc)
  case Nil
  then show ?case by (simp add: serializable_def)
next
  case (Cons p d)
  obtain k s where p: "p = (k, s)" by (cases p)
  from Cons.prems have "map_of acc k = None"
    by (auto simp: p map_of_eq_None_iff)
  then have u: "AList.update k s acc = acc @ [(k, s)]"
    by (rule update_absent)
  from Cons.prems have "distinct (map fst ((acc @ [(k, s)]) @ d))"
    by (simp add: p)
  from Cons.IH [OF this] u show ?case
    by (simp add: serializable_def p)
qed

lemma load_items_serializable_same:
  assumes "\<forall>(k, s) \<in> set d2. map_of d k = Some s"
  shows "load_items (serializable d2) d = Some (None, d)"
  using assms
  by (induction d2) (auto simp: serializable_def update_triv)

lemma serializable_keys: "map fst (serializable d) = map fst d"
  by (induction d) (auto simp: serializable_def)

lemma dict_get_distinct:
  "distinct (map fst d) \<Longrightarrow> (k, s) \<in> set d \<Longrightarrow> dict_get d k = s"
  by (simp add: dict_get_def)

lemma serializable_lists:
  assumes "distinct (map fst d)" and "(k, v) \<in> set (serializable d)"
  shows "\<exists>ns. v = JList (map JInt ns) \<and> sorted ns \<and> distinct ns
              \<and> set ns = fset (dict_get d k)"
proof -
  from assms(2) obtain s where s: "(k, s) \<in> set d"
    and v: "v = JList (map JInt (sorted_list_of_fset s))"
    by (auto simp: serializable_def)
  from assms(1) s have "dict_get d k = s" by (rule dict_get_distinct)
  with v show ?thesis
    by (auto simp: distinct_sorted_list_of_fset sorted_sorted_list_of_fset)
qed

text \<open>
  C5. Save followed by load is a round trip. For every ledger (a dict: no day twice), when
  the file can be written, \<open>save_data\<close> writes under each day key, in the order of the
  ledger's keys, the ascending list of the identities of that day, and \<open>load_data\<close> from
  that file gives the ledger back, into an empty ledger as into the one that was saved.
\<close>

theorem save_load_round_trip:
  assumes "distinct (map fst (submissions_by_day st))"
      and "disk_writable st"
  shows "(\<exists>kvs. data_file (save_data st) = Parsed (JObj kvs)
            \<and> map fst kvs = map fst (submissions_by_day st)
            \<and> (\<forall>(k, v) \<in> set kvs.
                  \<exists>ns. v = JList (map JInt ns) \<and> sorted ns \<and> distinct ns
                     \<and> set ns = fset (dict_get (submissions_by_day st) k)))
       \<and> map_option submissions_by_day
           (load_data ((save_data st)\<lparr>submissions_by_day := []\<rparr>))
           = Some (submissions_by_day st)
       \<and> map_option submissions_by_day (load_data (save_data st))
           = Some (submissions_by_day st)"
proof -
  let ?d = "submissions_by_day st"
  have saved: "data_file (save_data st) = Parsed (JObj (serializable ?d))"
    using assms(2) by (simp add: save_data_def)
  have "\<forall>(k, v) \<in> set (serializable ?d).
          \<exists>ns. v = JList (map JInt ns) \<and> sorted ns \<and> distinct ns
             \<and> set ns = fset (dict_get ?d k)"
    using serializable_lists [OF assms(1)] by blast
  with saved have a: "\<exists>kvs. data_file (save_data st) = Parsed (JObj kvs)
            \<and> map fst kvs = map fst ?d
            \<and> (\<forall>(k, v) \<in> set kvs.
                  \<exists>ns. v = JList (map JInt ns) \<and> sorted ns \<and> distinct ns
                     \<and> set ns = fset (dict_get ?d k))"
    using serializable_keys by blast
  have "load_items (serializable ?d) [] = Some (None, [] @ ?d)"
    by (rule load_items_serializable_fresh) (simp add: assms(1))
  then have b: "map_option submissions_by_day
                  (load_data ((save_data st)\<lparr>submissions_by_day := []\<rparr>)) = Some ?d"
    using assms(2) by (simp add: load_data_def save_data_def logging_def)
  have "\<forall>(k, s) \<in> set ?d. map_of ?d k = Some s"
    using assms(1) by auto
  then have "load_items (serializable ?d) ?d = Some (None, ?d)"
    by (rule load_items_serializable_same)
  then have c: "map_option submissions_by_day (load_data (save_data st)) = Some ?d"
    using assms(2) by (simp add: load_data_def save_data_def logging_def)
  from a b c show ?thesis by blast
qed

theorem save_load_round_trip_witness:
  "distinct (map fst [(''2024-01-02'', {|9, 3 :: int|}), (''2024-01-01'', {|2, 1|})])
   \<and> data_file
       (save_data
         \<lparr>submissions_by_day = [(''2024-01-02'', {|9, 3|}), (''2024-01-01'', {|2, 1|})],
          data_file = Absent, disk_writable = True, sent = [], logged = []\<rparr>)
     = Parsed (JObj [(''2024-01-02'', JList [JInt 3, JInt 9]),
                      (''2024-01-01'', JList [JInt 1, JInt 2])])
   \<and> map_option submissions_by_day
       (load_data ((save_data
          \<lparr>submissions_by_day = [(''2024-01-02'', {|9, 3|}), (''2024-01-01'', {|2, 1|})],
           data_file = Absent, disk_writable = True, sent = [], logged = []\<rparr>)
          \<lparr>submissions_by_day := []\<rparr>))
     = Some [(''2024-01-02'', {|9, 3|}), (''2024-01-01'', {|2, 1|})]"
proof -
  have d: "distinct (map fst (submissions_by_day
             \<lparr>submissions_by_day = [(''2024-01-02'', {|9, 3|}), (''2024-01-01'', {|2, 1|})],
              data_file = Absent, disk_writable = True, sent = [], logged = []\<rparr>))"
    by simp
  have w: "disk_writable
             \<lparr>submissions_by_day = [(''2024-01-02'', {|9, 3|}), (''2024-01-01'', {|2, 1|})],
              data_file = Absent, disk_writable = True, sent = [], logged = []\<rparr>"
    by simp
  have f: "data_file
       (save_data
         \<lparr>submissions_by_day = [(''2024-01-02'', {|9, 3|}), (''2024-01-01'', {|2, 1|})],
          data_file = Absent, disk_writable = True, sent = [], logged = []\<rparr>)
     = Parsed (JObj [(''2024-01-02'', JList [JInt 3, JInt 9]),
                      (''2024-01-01'', JList [JInt 1, JInt 2])])"
    by code_simp
  from save_load_round_trip [OF d w] f show ?thesis
    by simp
qed

section \<open>Clearing the day\<close>

text \<open>
  C7. \<open>clear_submissions\<close>, run by an administrator in the target channel, replaces the
  set of the current day by the empty set and triggers a save (the file holds the ledger
  when it can be written, the failure is logged when it cannot); the entry of every other
  day is unchanged.
\<close>

theorem clear_submissions_clears:
  assumes "ctx_channel_id ctx = CHANNEL_ID cfg"
      and "administrator ctx"
      and "st' = clear_submissions cfg today ctx st"
  shows "map_of (submissions_by_day st') today = Some {||}
       \<and> (\<forall>k. k \<noteq> today
            \<longrightarrow> map_of (submissions_by_day st') k = map_of (submissions_by_day st) k)
       \<and> (disk_writable st
            \<longrightarrow> data_file st' = Parsed (JObj (serializable (submissions_by_day st'))))
       \<and> (\<not> disk_writable st
            \<longrightarrow> data_file st' = data_file st \<and> logged st' = logged st @ [SaveFailed OSError])
       \<and> sent st' = sent st @ [(ctx_channel_id ctx, Text cleared_text)]"
  using assms
  by (simp add: clear_submissions_def send_def update_conv' save_data_def logging_def)

theorem clear_submissions_clears_witness:
  "ctx_channel_id \<lparr>ctx_channel_id = 42, ctx_guild = \<lparr>members = [], get_member = (\<lambda>_. None)\<rparr>,
                   administrator = True\<rparr> = CHANNEL_ID \<lparr>CHANNEL_ID = 42, bot_user = 99\<rparr>
   \<and> map_of
        (submissions_by_day
          (clear_submissions \<lparr>CHANNEL_ID = 42, bot_user = 99\<rparr> ''2024-01-02''
             \<lparr>ctx_channel_id = 42, ctx_guild = \<lparr>members = [], get_member = (\<lambda>_. None)\<rparr>,
              administrator = True\<rparr>
             \<lparr>submissions_by_day = [(''2024-01-01'', {|1, 2|}), (''2024-01-02'', {|5, 6, 7|})],
              data_file = Absent, disk_writable = True, sent = [], logged = []\<rparr>))
        ''2024-01-02'' = Some {||}
   \<and> data_file
        (clear_submissions \<lparr>CHANNEL_ID = 42, bot_user = 99\<rparr> ''2024-01-02''
           \<lparr>ctx_channel_id = 42, ctx_guild = \<lparr>members = [], get_member = (\<lambda>_. None)\<rparr>,
            administrator = True\<rparr>
           \<lparr>submissions_by_day = [(''2024-01-01'', {|1, 2|}), (''2024-01-02'', {|5, 6, 7|})],
            data_file = Absent, disk_writable = True, sent = [], logged = []\<rparr>)
       = Parsed (JObj [(''2024-01-01'', JList [JInt 1, JInt 2]), (''2024-01-02'', JList [])])"
proof -
  have c: "ctx_channel_id \<lparr>ctx_channel_id = 42, ctx_guild = \<lparr>members = [], get_member = (\<lambda>_. None)\<rparr>,
                   administrator = True\<rparr> = CHANNEL_ID \<lparr>CHANNEL_ID = 42, bot_user = 99\<rparr>"
    by simp
  have a: "administrator \<lparr>ctx_channel_id = 42, ctx_guild = \<lparr>members = [], get_member = (\<lambda>_. None)\<rparr>,
                   administrator = True\<rparr>"
    by simp
  have e: "serializable
             (submissions_by_day
               (clear_submissions \<lparr>CHANNEL_ID = 42, bot_user = 99\<rparr> ''2024-01-02''
                 \<lparr>ctx_channel_id = 42, ctx_guild = \<lparr>members = [], get_member = (\<lambda>_. None)\<rparr>,
                  administrator = True\<rparr>
                 \<lparr>submissions_by_day = [(''2024-01-01'', {|1, 2|}), (''2024-01-02'', {|5, 6, 7|})],
                  data_file = Absent, disk_writable = True, sent = [], logged = []\<rparr>))
           = [(''2024-01-01'', JList [JInt 1, JInt 2]), (''2024-01-02'', JList [])]"
    by code_simp
  from clear_submissions_clears [OF c a refl, of "''2024-01-02''"
         "\<lparr>submissions_by_day = [(''2024-01-01'', {|1, 2|}), (''2024-01-02'', {|5, 6, 7|})],
           data_file = Absent, disk_writable = True, sent = [], logged = []\<rparr>"] c e
  show ?thesis by simp
qed

text \<open>
  C9. When \<open>clear_submissions\<close> is invoked in the target channel by a user who is not an
  administrator, the denial message is sent and nothing else happens: the ledger, the file
  and the log are unchanged, so no save took place. A run of the command that changes any
  of them was invoked by an administrator in the target channel, and such a run empties
  the set of the day.
\<close>

theorem clear_submissions_denied:
  "(ctx_channel_id ctx = CHANNEL_ID cfg \<and> \<not> administrator ctx
      \<longrightarrow> sent (clear_submissions cfg today ctx st)
            = sent st @ [(ctx_channel_id ctx, Text denial_text)]
        \<and> submissions_by_day (clear_submissions cfg today ctx st) = submissions_by_day st
        \<and> data_file (clear_submissions cfg today ctx st) = data_file st
        \<and> logged (clear_submissions cfg today ctx st) = logged st)
   \<and> (submissions_by_day (clear_submissions cfg today ctx st) \<noteq> submissions_by_day st
        \<or> data_file (clear_submissions cfg today ctx st) \<noteq> data_file st
        \<or> logged (clear_submissions cfg today ctx st) \<noteq> logged st
      \<longrightarrow> administrator ctx \<and> ctx_channel_id ctx = CHANNEL_ID cfg)
   \<and> (ctx_channel_id ctx = CHANNEL_ID cfg \<and> administrator ctx
      \<longrightarrow> dict_get (submissions_by_day (clear_submissions cfg today ctx st)) today = {||})"
  by (auto simp: clear_submissions_def send_def dict_get_def update_conv')

theorem clear_submissions_denied_witness:
  "ctx_channel_id \<lparr>ctx_channel_id = 42, ctx_guild = \<lparr>members = [], get_member = (\<lambda>_. None)\<rparr>,
                   administrator = False\<rparr> = CHANNEL_ID \<lparr>CHANNEL_ID = 42, bot_user = 99\<rparr>
   \<and> \<not> administrator
          \<lparr>ctx_channel_id = 42, ctx_guild = \<lparr>members = [], get_member = (\<lambda>_. None)\<rparr>,
           administrator = False\<rparr>
   \<and> clear_submissions \<lparr>CHANNEL_ID = 42, bot_user = 99\<rparr> ''2024-01-02''
        \<lparr>ctx_channel_id = 42, ctx_guild = \<lparr>members = [], get_member = (\<lambda>_. None)\<rparr>,
         administrator = False\<rparr>
        \<lparr>submissions_by_day = [(''2024-01-02'', {|5, 6, 7|})],
         data_file = Absent, disk_writable = True, sent = [], logged = []\<rparr>
      = \<lparr>submissions_by_day = [(''2024-01-02'', {|5, 6, 7|})],
         data_file = Absent, disk_writable = True, sent = [(42, Text denial_text)],
         logged = []\<rparr>"
  using clear_submissions_denied
          [of "\<lparr>ctx_channel_id = 42, ctx_guild = \<lparr>members = [], get_member = (\<lambda>_. None)\<rparr>,
                administrator = False\<rparr>"
              "\<lparr>CHANNEL_ID = 42, bot_user = 99\<rparr>" "''2024-01-02''"
              "\<lparr>submissions_by_day = [(''2024-01-02'', {|5, 6, 7|})],
                data_file = Absent, disk_writable = True, sent = [], logged = []\<rparr>"]
  by (simp add: clear_submissions_def send_def)

section \<open>Messages in any channel\<close>

lemma commands_ignore_other_channels:
  "ctx_channel_id ctx \<noteq> CHANNEL_ID cfg \<Longrightarrow>
     report_submissions cfg today ctx st = st
     \<and> report_not_submitted cfg today ctx st = st
     \<and> daily_report cfg today ctx st = st
     \<and> clear_submissions cfg today ctx st = st"
  by (simp add: report_submissions_def report_not_submitted_def daily_report_def
                clear_submissions_def)

text \<open>
  What \<open>on_message\<close> does for a message that the bot did not write and that the detector
  counts as a submission, when the reply to a leading \<open>!test\<close> is not refused: whatever
  the channel, the author's identity is added to the entry of the day, which is created if
  absent, and a save is triggered, before the commands are processed or an exception of
  the confirmation leaves the handler.
\<close>

lemma on_message_records_when_reply_sent:
  assumes "user_id (author m) \<noteq> bot_user cfg"
      and "spreadsheet_detected m"
      and "prefix ''!test'' (content m) \<longrightarrow>
             refuses (channel_id m)
               (Text (robot_face @ '' Bot is working! Channel ID: ''
                        @ str_int (channel_id m))) = None"
  shows "\<exists>st'. (on_message cfg refuses process_commands today m st
                    = Inr (process_commands m st')
                \<or> (\<exists>e. on_message cfg refuses process_commands today m st = Inl (e, st')))
            \<and> map_of (submissions_by_day st') today
                = Some (finsert (user_id (author m)) (dict_get (submissions_by_day st) today))
            \<and> (\<forall>k. k \<noteq> today
                 \<longrightarrow> map_of (submissions_by_day st') k = map_of (submissions_by_day st) k)
            \<and> (disk_writable st
                 \<longrightarrow> data_file st' = Parsed (JObj (serializable (submissions_by_day st'))))
            \<and> (\<not> disk_writable st
                 \<longrightarrow> data_file st' = data_file st
                   \<and> logged st' = logged st @ [SaveFailed OSError])"
proof -
  let ?reply = "Text (robot_face @ '' Bot is working! Channel ID: '' @ str_int (channel_id m))"
  let ?conf = "Text (check_mark @ '' Spreadsheet received from '' @ mention (author m))"
  let ?st1 = "if prefix ''!test'' (content m) then send (channel_id m) ?reply st else st"
  let ?st2 = "save_data
                (?st1\<lparr>submissions_by_day :=
                        record_submission today (user_id (author m))
                          (submissions_by_day ?st1)\<rparr>)"
  let ?st3 = "send (channel_id m) ?conf ?st2"
  have first: "(if prefix ''!test'' (content m)
                then try_send refuses (channel_id m) ?reply st else Inr st) = Inr ?st1"
    using assms(3) by (simp add: try_send_def)
  have st1: "submissions_by_day ?st1 = submissions_by_day st"
            "data_file ?st1 = data_file st" "logged ?st1 = logged st"
            "disk_writable ?st1 = disk_writable st"
    by (simp_all add: send_def)
  have run: "on_message cfg refuses process_commands today m st = Inr (process_commands m ?st2)
             \<or> on_message cfg refuses process_commands today m st = Inr (process_commands m ?st3)
             \<or> (\<exists>e. on_message cfg refuses process_commands today m st = Inl (e, ?st2))"
    using assms(1,2) unfolding on_message_def first
    by (auto simp: Let_def try_send_def split: option.splits)
  have led2: "submissions_by_day ?st2
                = record_submission today (user_id (author m)) (submissions_by_day st)"
    by (simp add: save_data_def logging_def st1)
  have led3: "submissions_by_day ?st3 = submissions_by_day ?st2"
             "data_file ?st3 = data_file ?st2" "logged ?st3 = logged ?st2"
    by (simp_all add: send_def)
  have w: "disk_writable st \<Longrightarrow>
             data_file ?st2 = Parsed (JObj (serializable (submissions_by_day ?st2)))"
    by (simp add: save_data_def st1)
  have nw: "\<not> disk_writable st \<Longrightarrow>
              data_file ?st2 = data_file st \<and> logged ?st2 = logged st @ [SaveFailed OSError]"
    by (simp add: save_data_def logging_def st1)
  have m2: "map_of (submissions_by_day ?st2) today
          = Some (finsert (user_id (author m)) (dict_get (submissions_by_day st) today))"
    unfolding led2 by (simp add: map_of_record_submission)
  have o2: "\<forall>k. k \<noteq> today
          \<longrightarrow> map_of (submissions_by_day ?st2) k = map_of (submissions_by_day st) k"
    unfolding led2 by (simp add: map_of_record_submission)
  let ?P = "\<lambda>st'. map_of (submissions_by_day st') today
                = Some (finsert (user_id (author m)) (dict_get (submissions_by_day st) today))
            \<and> (\<forall>k. k \<noteq> today
                 \<longrightarrow> map_of (submissions_by_day st') k = map_of (submissions_by_day st) k)
            \<and> (disk_writable st
                 \<longrightarrow> data_file st' = Parsed (JObj (serializable (submissions_by_day st'))))
            \<and> (\<not> disk_writable st
                 \<longrightarrow> data_file st' = data_file st
                   \<and> logged st' = logged st @ [SaveFailed OSError])"
  have p2: "?P ?st2" using m2 o2 w nw by blast
  have p3: "?P ?st3" using p2 unfolding led3 by blast
  from run p2 p3 show ?thesis by blast
qed

text \<open>
  C10 says that the author of every message that the bot did not write and that the
  detector counts as a submission is recorded, and a save triggered, in any channel. The
  code does not do this for a message whose text starts with \<open>!test\<close> in a channel where
  the bot may not write: the reply of line 161 raises \<open>Forbidden\<close> outside any \<open>try\<close>,
  the handler is left before the detection, and the ledger, the file and the log are as
  they were. The confirmation of lines 193 to 198 guards the same call.
\<close>

theorem on_message_test_reply_refused:
  "user_id (author
      \<lparr>author = \<lparr>user_id = 7, user_name = ''ann'', mention = ''<@7>''\<rparr>, channel_id = 5,
       content = ''!test'', attachments = [\<lparr>filename = ''report.xlsx''\<rparr>]\<rparr>)
     \<noteq> bot_user \<lparr>CHANNEL_ID = 42, bot_user = 99\<rparr>
   \<and> spreadsheet_detected
      \<lparr>author = \<lparr>user_id = 7, user_name = ''ann'', mention = ''<@7>''\<rparr>, channel_id = 5,
       content = ''!test'', attachments = [\<lparr>filename = ''report.xlsx''\<rparr>]\<rparr>
   \<and> on_message \<lparr>CHANNEL_ID = 42, bot_user = 99\<rparr> (\<lambda>chan x. Some Forbidden) (\<lambda>m st. st)
        ''2024-01-02''
        \<lparr>author = \<lparr>user_id = 7, user_name = ''ann'', mention = ''<@7>''\<rparr>, channel_id = 5,
         content = ''!test'', attachments = [\<lparr>filename = ''report.xlsx''\<rparr>]\<rparr>
        \<lparr>submissions_by_day = [(''2024-01-02'', {|1|})], data_file = Absent,
         disk_writable = True, sent = [], logged = []\<rparr>
     = Inl (Forbidden,
            \<lparr>submissions_by_day = [(''2024-01-02'', {|1|})], data_file = Absent,
             disk_writable = True, sent = [], logged = []\<rparr>)"
  by (simp add: on_message_def try_send_def spreadsheet_detected_def endswith_def
                spreadsheet_extensions_def string_eval)

text \<open>The same message where the platform accepts the sends.\<close>

lemma same_message_where_sends_pass:
  "on_message \<lparr>CHANNEL_ID = 42, bot_user = 99\<rparr> (\<lambda>chan x. None) (\<lambda>m st. st)
        ''2024-01-02''
        \<lparr>author = \<lparr>user_id = 7, user_name = ''ann'', mention = ''<@7>''\<rparr>, channel_id = 5,
         content = ''!test'', attachments = [\<lparr>filename = ''report.xlsx''\<rparr>]\<rparr>
        \<lparr>submissions_by_day = [(''2024-01-02'', {|1|})], data_file = Absent,
         disk_writable = True, sent = [], logged = []\<rparr>
     = Inr \<lparr>submissions_by_day = [(''2024-01-02'', {|7, 1|})],
            data_file = Parsed (JObj [(''2024-01-02'', JList [JInt 1, JInt 7])]),
            disk_writable = True,
            sent = [(5, Text (robot_face @ '' Bot is working! Channel ID: 5'')),
                    (5, Text (check_mark @ '' Spreadsheet received from <@7>''))],
            logged = []\<rparr>"
proof -
  have s: "sorted_list_of_fset {|7, 1 :: int|} = [1, 7]" by code_simp
  show ?thesis
    by (simp add: on_message_def try_send_def spreadsheet_detected_def endswith_def
                  spreadsheet_extensions_def string_eval send_def save_data_def
                  record_submission_def setdefault_def dict_get_def serializable_def s
                  str_int_def str_nat.simps digit_def)
qed

section \<open>Loading\<close>

lemma py_set_raises:
  "py_set v = Raises e \<longleftrightarrow>
     e = TypeError
     \<and> (v = JNull \<or> (\<exists>b. v = JBool b) \<or> (\<exists>n. v = JInt n) \<or> (\<exists>x. v = JFloat x)
        \<or> (\<exists>vs. v = JList vs \<and> (\<exists>x\<in>set vs. \<not> hashable x)))"
  by (cases v) (auto simp: list_all_iff split: option.splits)

lemma ints_of_Some: "ints_of vs = Some ns \<longleftrightarrow> vs = map JInt ns"
proof (induction vs arbitrary: ns)
  case Nil
  then show ?case by auto
next
  case (Cons v vs)
  then show ?case
    by (cases v; cases ns) auto
qed

lemma py_set_ints:
  "py_set v = IntSet s \<longleftrightarrow>
     (\<exists>ns. v = JList (map JInt ns) \<and> s = fset_of_list ns)
     \<or> (s = {||} \<and> (v = JStr [] \<or> v = JObj []))"
proof (cases v)
  case (JList vs)
  show ?thesis
  proof
    assume "py_set v = IntSet s"
    with JList obtain ns where "ints_of vs = Some ns" and "s = fset_of_list ns"
      by (auto split: option.splits if_splits)
    then show "(\<exists>ns. v = JList (map JInt ns) \<and> s = fset_of_list ns)
                 \<or> (s = {||} \<and> (v = JStr [] \<or> v = JObj []))"
      using JList by (auto simp: ints_of_Some)
  next
    assume "(\<exists>ns. v = JList (map JInt ns) \<and> s = fset_of_list ns)
              \<or> (s = {||} \<and> (v = JStr [] \<or> v = JObj []))"
    with JList show "py_set v = IntSet s"
      by auto
  qed
qed (auto split: if_splits)










text \<open>A string is accepted by \<open>set\<close>: the dict then holds a set of characters.\<close>

lemma foreign_example:
  "load_data
        \<lparr>submissions_by_day = [],
         data_file = Parsed (JObj [(''d'', JStr ''abc'')]),
         disk_writable = True, sent = [], logged = []\<rparr> = None"
  by (simp add: load_data_def)

section \<open>Reports\<close>

lemma digit_cases:
  assumes "(n::nat) < 10"
  obtains "n = 0" | "n = 1" | "n = 2" | "n = 3" | "n = 4"
        | "n = 5" | "n = 6" | "n = 7" | "n = 8" | "n = 9"
  using assms by atomize_elim arith

lemma digit_value: "n < 10 \<Longrightarrow> of_char (digit n) = 48 + n"
  by (erule digit_cases) (simp_all add: digit_def)

lemma digit_decimal: "n < 10 \<Longrightarrow> digit n \<in> set ''0123456789''"
  by (erule digit_cases) (simp_all add: digit_def)

lemma digit_zero: "n < 10 \<Longrightarrow> digit n = CHR ''0'' \<Longrightarrow> n = 0"
  by (erule digit_cases) (simp_all add: digit_def)

lemma str_nat_nonempty: "str_nat n \<noteq> []"
  by (subst str_nat.simps) simp

lemma str_nat_decimal: "set (str_nat n) \<subseteq> set ''0123456789''"
proof (induction n rule: str_nat.induct)
  case (1 n)
  show ?case
  proof (cases "n < 10")
    case True
    then show ?thesis
      using digit_decimal [of n] by (subst str_nat.simps) simp
  next
    case False
    have "n mod 10 < 10" by simp
    from digit_decimal [OF this] 1 [OF False] False show ?thesis
      by (subst str_nat.simps) simp
  qed
qed

lemma str_nat_value:
  "foldl (\<lambda>a c. 10 * a + (of_char c - 48)) 0 (str_nat n) = n"
proof (induction n rule: str_nat.induct)
  case (1 n)
  show ?case
  proof (cases "n < 10")
    case True
    then show ?thesis
      by (subst str_nat.simps) (simp add: digit_value)
  next
    case False
    have "n mod 10 < 10" by simp
    from digit_value [OF this] 1 [OF False] False show ?thesis
      by (subst str_nat.simps) simp
  qed
qed

lemma str_nat_leading_zero: "hd (str_nat n) = CHR ''0'' \<Longrightarrow> n = 0"
proof (induction n rule: str_nat.induct)
  case (1 n)
  show ?case
  proof (cases "n < 10")
    case True
    with 1(2) have "digit n = CHR ''0''"
      by (subst (asm) str_nat.simps) simp
    with True show ?thesis by (rule digit_zero)
  next
    case False
    with 1(2) have "hd (str_nat (n div 10)) = CHR ''0''"
      by (subst (asm) str_nat.simps) (simp add: str_nat_nonempty)
    from 1(1) [OF False this] False show ?thesis by simp
  qed
qed

lemma str_int_decimal:
  "(0 \<le> i \<longrightarrow>
      str_int i \<noteq> [] \<and> set (str_int i) \<subseteq> set ''0123456789''
      \<and> int (foldl (\<lambda>a c. 10 * a + (of_char c - 48)) 0 (str_int i)) = i
      \<and> (hd (str_int i) = CHR ''0'' \<longrightarrow> str_int i = ''0''))
   \<and> (i < 0 \<longrightarrow> str_int i = CHR ''-'' # str_int (- i))"
proof -
  have zero: "str_int 0 = ''0''"
    by (simp add: str_int_def str_nat.simps digit_def)
  have "hd (str_nat (nat i)) = CHR ''0'' \<Longrightarrow> 0 \<le> i \<Longrightarrow> i = 0"
    using str_nat_leading_zero [of "nat i"] by simp
  then have "hd (str_int i) = CHR ''0'' \<Longrightarrow> 0 \<le> i \<Longrightarrow> str_int i = ''0''"
    using zero by (auto simp: str_int_def)
  then show ?thesis
    using str_nat_decimal [of "nat i"]
    by (auto simp: str_int_def str_nat_nonempty str_nat_value)
qed

lemma join_append:
  "xs \<noteq> [] \<Longrightarrow> ys \<noteq> [] \<Longrightarrow> join sep (xs @ ys) = join sep xs @ sep @ join sep ys"
proof (induction sep xs rule: join.induct)
  case (1 sep)
  then show ?case by simp
next
  case (2 sep x)
  then show ?case by (cases ys) simp_all
next
  case (3 sep x y ys)
  then show ?case by simp
qed

lemma join_lines:
  "concat (map (\<lambda>l. l @ sep) ls) = (if ls = [] then [] else join sep ls @ sep)"
  by (induction sep ls rule: join.induct) simp_all

lemma report_lines_map:
  "report_lines mark g uids lines =
     lines @ map (\<lambda>uid. mark @ '' '' @ (case get_member g uid of
                                              Some u \<Rightarrow> display_name u
                                            | None \<Rightarrow> str_int uid)) uids"
  by (induction uids arbitrary: lines) simp_all

lemma daily_lines_map:
  "daily_lines mark g uids =
     map (\<lambda>uid. mark @ '' '' @ display_name (the (get_member g uid)))
       (filter (\<lambda>uid. get_member g uid \<noteq> None) uids)"
  by (induction uids) (auto split: option.splits)

lemma sorted_list_facts:
  "sorted (sorted_list_of_fset s) \<and> distinct (sorted_list_of_fset s)
     \<and> set (sorted_list_of_fset s) = fset s"
  by (simp add: sorted_list_of_fset.rep_eq)

lemma resolved_list_facts:
  "sorted (filter P (sorted_list_of_fset s)) \<and> distinct (filter P (sorted_list_of_fset s))
     \<and> set (filter P (sorted_list_of_fset s)) = {uid \<in> fset s. P uid}"
  by (auto simp: sorted_list_of_fset.rep_eq sorted_wrt_filter)

text \<open>
  C8. In the target channel, the submitted and the not-submitted report list every identity
  of their set, in ascending order, one line each: the display name when \<open>get_member\<close>
  knows the identity, and the identity itself when it does not, written as \<open>str_int\<close>
  writes it. The combined report lists, in ascending order, the identities that
  \<open>get_member\<close> knows, and has no line for the others. What \<open>str_int\<close> writes is the
  decimal numeral of the number: digits only, that denote the number, with no leading
  zero, and a minus sign before the numeral of the opposite when the number is negative.
\<close>

theorem reports_unresolved_identities:
  assumes "ctx_channel_id ctx = CHANNEL_ID cfg"
      and "get_today_sets today (ctx_guild ctx) (submissions_by_day st)
             = (submitted, not_submitted)"
  shows "(submitted \<noteq> {||} \<longrightarrow>
            (\<exists>e ids. report_submissions cfg today ctx st
                        = send (ctx_channel_id ctx) (Embed e) st
               \<and> sorted ids \<and> distinct ids \<and> set ids = fset submitted
               \<and> description e
                   = join newline
                       (map (\<lambda>uid. check_mark @ '' '' @
                               (case get_member (ctx_guild ctx) uid of
                                  Some u \<Rightarrow> display_name u
                                | None \<Rightarrow> str_int uid)) ids)))
       \<and> (not_submitted \<noteq> {||} \<longrightarrow>
            (\<exists>e ids. report_not_submitted cfg today ctx st
                        = send (ctx_channel_id ctx) (Embed e) st
               \<and> sorted ids \<and> distinct ids \<and> set ids = fset not_submitted
               \<and> description e
                   = join newline
                       (map (\<lambda>uid. cross_mark @ '' '' @
                               (case get_member (ctx_guild ctx) uid of
                                  Some u \<Rightarrow> display_name u
                                | None \<Rightarrow> str_int uid)) ids)))
       \<and> (\<exists>e ids ids'. daily_report cfg today ctx st
                          = send (ctx_channel_id ctx) (Embed e) st
               \<and> sorted ids \<and> distinct ids
               \<and> set ids = {uid \<in> fset submitted. get_member (ctx_guild ctx) uid \<noteq> None}
               \<and> sorted ids' \<and> distinct ids'
               \<and> set ids' = {uid \<in> fset not_submitted. get_member (ctx_guild ctx) uid \<noteq> None}
               \<and> description e
                   = join newline
                       [if submitted \<noteq> {||}
                        then ''**Submitted:**'' @ newline @
                             join newline
                               (map (\<lambda>uid. check_mark @ '' '' @
                                       display_name (the (get_member (ctx_guild ctx) uid))) ids)
                        else ''No submissions yet.'',
                        if not_submitted \<noteq> {||}
                        then newline @ ''**Not Submitted:**'' @ newline @
                             join newline
                               (map (\<lambda>uid. cross_mark @ '' '' @
                                       display_name (the (get_member (ctx_guild ctx) uid))) ids')
                        else newline @ ''Everyone has submitted '' @ check_mark])
       \<and> (\<forall>i. (0 \<le> i \<longrightarrow>
                  str_int i \<noteq> [] \<and> set (str_int i) \<subseteq> set ''0123456789''
                  \<and> int (foldl (\<lambda>a c. 10 * a + (of_char c - 48)) 0 (str_int i)) = i
                  \<and> (hd (str_int i) = CHR ''0'' \<longrightarrow> str_int i = ''0''))
               \<and> (i < 0 \<longrightarrow> str_int i = CHR ''-'' # str_int (- i)))"
proof -
  let ?g = "ctx_guild ctx"
  have a: "\<exists>e ids. report_submissions cfg today ctx st
                        = send (ctx_channel_id ctx) (Embed e) st
               \<and> sorted ids \<and> distinct ids \<and> set ids = fset submitted
               \<and> description e
                   = join newline
                       (map (\<lambda>uid. check_mark @ '' '' @
                               (case get_member ?g uid of
                                  Some u \<Rightarrow> display_name u
                                | None \<Rightarrow> str_int uid)) ids)"
    if "submitted \<noteq> {||}"
  proof -
    let ?e = "\<lparr>title = bar_chart @ '' Submitted Today'',
               description =
                 join newline (report_lines check_mark ?g (sorted_list_of_fset submitted) []),
               color = 0x00ff00,
               footer = ''Total submitted: '' @ str_nat (fcard submitted)\<rparr>"
    have "report_submissions cfg today ctx st = send (ctx_channel_id ctx) (Embed ?e) st"
      using assms that by (simp add: report_submissions_def)
    moreover have "description ?e
                   = join newline
                       (map (\<lambda>uid. check_mark @ '' '' @
                               (case get_member ?g uid of
                                  Some u \<Rightarrow> display_name u
                                | None \<Rightarrow> str_int uid)) (sorted_list_of_fset submitted))"
      by (simp add: report_lines_map)
    ultimately show ?thesis
      using sorted_list_facts [of submitted] by blast
  qed
  have b: "\<exists>e ids. report_not_submitted cfg today ctx st
                        = send (ctx_channel_id ctx) (Embed e) st
               \<and> sorted ids \<and> distinct ids \<and> set ids = fset not_submitted
               \<and> description e
                   = join newline
                       (map (\<lambda>uid. cross_mark @ '' '' @
                               (case get_member ?g uid of
                                  Some u \<Rightarrow> display_name u
                                | None \<Rightarrow> str_int uid)) ids)"
    if "not_submitted \<noteq> {||}"
  proof -
    let ?e = "\<lparr>title = clock_face @ '' Not Yet Submitted Today'',
               description =
                 join newline
                   (report_lines cross_mark ?g (sorted_list_of_fset not_submitted) []),
               color = 0xFFAA00,
               footer = ''Pending: '' @ str_nat (fcard not_submitted)
                          @ '' | Submitted: '' @ str_nat (fcard submitted)\<rparr>"
    have "report_not_submitted cfg today ctx st = send (ctx_channel_id ctx) (Embed ?e) st"
      using assms that by (simp add: report_not_submitted_def)
    moreover have "description ?e
                   = join newline
                       (map (\<lambda>uid. cross_mark @ '' '' @
                               (case get_member ?g uid of
                                  Some u \<Rightarrow> display_name u
                                | None \<Rightarrow> str_int uid)) (sorted_list_of_fset not_submitted))"
      by (simp add: report_lines_map)
    ultimately show ?thesis
      using sorted_list_facts [of not_submitted] by blast
  qed
  have c: "\<exists>e ids ids'. daily_report cfg today ctx st
                          = send (ctx_channel_id ctx) (Embed e) st
               \<and> sorted ids \<and> distinct ids
               \<and> set ids = {uid \<in> fset submitted. get_member ?g uid \<noteq> None}
               \<and> sorted ids' \<and> distinct ids'
               \<and> set ids' = {uid \<in> fset not_submitted. get_member ?g uid \<noteq> None}
               \<and> description e
                   = join newline
                       [if submitted \<noteq> {||}
                        then ''**Submitted:**'' @ newline @
                             join newline
                               (map (\<lambda>uid. check_mark @ '' '' @
                                       display_name (the (get_member ?g uid))) ids)
                        else ''No submissions yet.'',
                        if not_submitted \<noteq> {||}
                        then newline @ ''**Not Submitted:**'' @ newline @
                             join newline
                               (map (\<lambda>uid. cross_mark @ '' '' @
                                       display_name (the (get_member ?g uid))) ids')
                        else newline @ ''Everyone has submitted '' @ check_mark]"
  proof -
    let ?P = "\<lambda>uid. get_member ?g uid \<noteq> None"
    let ?e = "\<lparr>title = ''Daily Report '' @ en_dash @ '' '' @ today,
               description = join newline (daily_desc_parts ?g submitted not_submitted),
               color = 0x3498DB,
               footer = ''Submitted: '' @ str_nat (fcard submitted)
                          @ '' | Pending: '' @ str_nat (fcard not_submitted)
                          @ '' | Total: '' @ str_nat (fcard submitted + fcard not_submitted)\<rparr>"
    have "daily_report cfg today ctx st = send (ctx_channel_id ctx) (Embed ?e) st"
      using assms by (simp add: daily_report_def)
    moreover have "description ?e
                   = join newline
                       [if submitted \<noteq> {||}
                        then ''**Submitted:**'' @ newline @
                             join newline
                               (map (\<lambda>uid. check_mark @ '' '' @
                                       display_name (the (get_member ?g uid)))
                                  (filter ?P (sorted_list_of_fset submitted)))
                        else ''No submissions yet.'',
                        if not_submitted \<noteq> {||}
                        then newline @ ''**Not Submitted:**'' @ newline @
                             join newline
                               (map (\<lambda>uid. cross_mark @ '' '' @
                                       display_name (the (get_member ?g uid)))
                                  (filter ?P (sorted_list_of_fset not_submitted)))
                        else newline @ ''Everyone has submitted '' @ check_mark]"
      by (simp add: daily_desc_parts_def daily_lines_map)
    ultimately show ?thesis
      using resolved_list_facts [of ?P submitted] resolved_list_facts [of ?P not_submitted]
      by blast
  qed
  from a b c str_int_decimal show ?thesis by blast
qed

lemma scenario_sets:
  "get_today_sets ''2024-01-02'' scenario_guild [(''2024-01-02'', {|1|})] = ({|1|}, {|2, 3|})"
  by (simp add: get_today_sets_def dict_get_def scenario_guild_def)

lemma scenario_lists:
  "sorted_list_of_fset {|2, 3 :: int|} = [2, 3]" "sorted_list_of_fset {|1 :: int|} = [1]"
  "fcard {|2, 3 :: int|} = 2" "fcard {|1 :: int|} = 1"
  by code_simp+

theorem reports_unresolved_identities_witness:
  "ctx_channel_id scenario_context = CHANNEL_ID \<lparr>CHANNEL_ID = 42, bot_user = 99\<rparr>
   \<and> get_today_sets ''2024-01-02'' (ctx_guild scenario_context)
       (submissions_by_day scenario_world) = ({|1|}, {|2, 3|})
   \<and> sent (report_not_submitted \<lparr>CHANNEL_ID = 42, bot_user = 99\<rparr> ''2024-01-02''
             scenario_context scenario_world)
     = [(42, Embed \<lparr>title = clock_face @ '' Not Yet Submitted Today'',
                    description = cross_mark @ '' Bob'' @ newline @ cross_mark @ '' 3'',
                    color = 0xFFAA00, footer = ''Pending: 2 | Submitted: 1''\<rparr>)]
   \<and> sent (daily_report \<lparr>CHANNEL_ID = 42, bot_user = 99\<rparr> ''2024-01-02''
             scenario_context scenario_world)
     = [(42, Embed \<lparr>title = ''Daily Report '' @ en_dash @ '' 2024-01-02'',
                    description =
                      ''**Submitted:**'' @ newline @ check_mark @ '' Alice'' @ newline
                        @ newline @ ''**Not Submitted:**'' @ newline @ cross_mark @ '' Bob'',
                    color = 0x3498DB,
                    footer = ''Submitted: 1 | Pending: 2 | Total: 3''\<rparr>)]
   \<and> str_int 1203400560 = ''1203400560''"
proof -
  have c: "ctx_channel_id scenario_context = CHANNEL_ID \<lparr>CHANNEL_ID = 42, bot_user = 99\<rparr>"
    by (simp add: scenario_context_def)
  have h: "get_today_sets ''2024-01-02'' (ctx_guild scenario_context)
             (submissions_by_day scenario_world) = ({|1|}, {|2, 3|})"
    by (simp add: scenario_context_def scenario_world_def scenario_sets)
  have n: "sent (report_not_submitted \<lparr>CHANNEL_ID = 42, bot_user = 99\<rparr> ''2024-01-02''
             scenario_context scenario_world)
     = [(42, Embed \<lparr>title = clock_face @ '' Not Yet Submitted Today'',
                    description = cross_mark @ '' Bob'' @ newline @ cross_mark @ '' 3'',
                    color = 0xFFAA00, footer = ''Pending: 2 | Submitted: 1''\<rparr>)]"
    by (simp add: report_not_submitted_def scenario_context_def scenario_world_def
                  scenario_sets send_def scenario_lists,
        simp add: scenario_guild_def str_int_def str_nat.simps digit_def)
  have d: "sent (daily_report \<lparr>CHANNEL_ID = 42, bot_user = 99\<rparr> ''2024-01-02''
             scenario_context scenario_world)
     = [(42, Embed \<lparr>title = ''Daily Report '' @ en_dash @ '' 2024-01-02'',
                    description =
                      ''**Submitted:**'' @ newline @ check_mark @ '' Alice'' @ newline
                        @ newline @ ''**Not Submitted:**'' @ newline @ cross_mark @ '' Bob'',
                    color = 0x3498DB,
                    footer = ''Submitted: 1 | Pending: 2 | Total: 3''\<rparr>)]"
    by (simp add: daily_report_def daily_desc_parts_def scenario_context_def
                  scenario_world_def scenario_sets send_def scenario_lists,
        simp add: scenario_guild_def str_int_def str_nat.simps digit_def)
  have i: "str_int 1203400560 = ''1203400560''"
    by (simp add: str_int_def str_nat.simps digit_def)
  from reports_unresolved_identities [OF c h] c h n d i show ?thesis
    by simp
qed

end
